theory Spec2Isabelle
  imports Complex_Main "HOL-Library.Multiset"
begin

section \<open>JavaScript strings\<close>

text \<open>
  A JavaScript string is a sequence of UTF-16 code units; \<open>length\<close>, indexing,
  \<open>split\<close>, \<open>indexOf\<close> and regular expressions without the \<open>u\<close> flag all
  work on code units. A code unit is modelled by its number. \<open>lit\<close> turns an ASCII
  literal of the source into its code units.
\<close>

type_synonym jsstring = "nat list"

definition lit :: "string \<Rightarrow> jsstring" where
  "lit s = map of_char s"

text \<open>
  \<open>WhiteSpace\<close> and \<open>LineTerminator\<close> of ECMAScript: what \<open>trim\<close>,
  \<open>trimEnd\<close> and the class \<open>\s\<close> remove or match.
\<close>

definition isWhiteSpace :: "nat \<Rightarrow> bool" where
  "isWhiteSpace c =
     (c = 9 \<or> c = 10 \<or> c = 11 \<or> c = 12 \<or> c = 13 \<or> c = 32 \<or> c = 160
      \<or> c = 5760 \<or> (8192 \<le> c \<and> c \<le> 8202) \<or> c = 8232 \<or> c = 8233
      \<or> c = 8239 \<or> c = 8287 \<or> c = 12288 \<or> c = 65279)"

definition trimStart :: "jsstring \<Rightarrow> jsstring" where
  "trimStart s = dropWhile isWhiteSpace s"

definition trimEnd :: "jsstring \<Rightarrow> jsstring" where
  "trimEnd s = rev (dropWhile isWhiteSpace (rev s))"

definition trim :: "jsstring \<Rightarrow> jsstring" where
  "trim s = trimStart (trimEnd s)"

text \<open>\<open>s.split('\n')\<close>: the pieces between line feeds (code unit 10); never empty.\<close>

fun splitLines :: "jsstring \<Rightarrow> jsstring list" where
  "splitLines [] = [[]]"
| "splitLines (c # cs) =
     (if c = 10 then [] # splitLines cs
      else (case splitLines cs of
              [] \<Rightarrow> [[c]]
            | l # ls \<Rightarrow> (c # l) # ls))"

definition startsWith :: "jsstring \<Rightarrow> jsstring \<Rightarrow> bool" where
  "startsWith s p = (take (length p) s = p)"

text \<open>\<open>s.indexOf(p)\<close>: the first index at which \<open>p\<close> occurs, or \<open>-1\<close>.\<close>

fun indexOfFrom :: "jsstring \<Rightarrow> jsstring \<Rightarrow> nat \<Rightarrow> int" where
  "indexOfFrom [] p i = (if p = [] then int i else - 1)"
| "indexOfFrom (c # cs) p i =
     (if startsWith (c # cs) p then int i else indexOfFrom cs p (i + 1))"

definition indexOf :: "jsstring \<Rightarrow> jsstring \<Rightarrow> int" where
  "indexOf s p = indexOfFrom s p 0"

definition includesStr :: "jsstring \<Rightarrow> jsstring \<Rightarrow> bool" where
  "includesStr s p = (indexOf s p \<noteq> - 1)"

text \<open>JavaScript's \<open>%\<close>: the remainder takes the sign of the dividend.\<close>

definition jsRem :: "int \<Rightarrow> int \<Rightarrow> int" where
  "jsRem a b = sgn a * (\<bar>a\<bar> mod \<bar>b\<bar>)"

text \<open>
  \<open>s.toLowerCase()\<close> on the letters A to Z. The Unicode case mapping of other code
  units is not modelled: the result is only compared with the ASCII language tags, and
  no code unit outside A to Z lower-cases to a letter of those tags.
\<close>

definition toLowerCase :: "jsstring \<Rightarrow> jsstring" where
  "toLowerCase s = map (\<lambda>c. if 65 \<le> c \<and> c \<le> 90 then c + 32 else c) s"


section \<open>Regular expressions\<close>

text \<open>
  The fragment of ECMAScript regular expressions the analyzer uses. A pattern is a
  disjunction of alternatives, tried in order; an alternative is a sequence of atoms:
  one code unit of a class, a greedy star over a class, the assertion \<open>\b\<close>, and
  the assertion \<open>^\<close> (no \<open>m\<close> flag: the start of the input).
\<close>

datatype charClass = Exactly nat | Except nat | WhiteSpace

datatype atom = One charClass | Many charClass | WordBoundary | InputStart

type_synonym pattern = "atom list list"

fun inClass :: "charClass \<Rightarrow> nat \<Rightarrow> bool" where
  "inClass (Exactly c) x = (x = c)"
| "inClass (Except c) x = (x \<noteq> c)"
| "inClass WhiteSpace x = isWhiteSpace x"

text \<open>\<open>\w\<close>: the letters, the digits and the underscore.\<close>

definition isWordChar :: "nat \<Rightarrow> bool" where
  "isWordChar c =
     ((65 \<le> c \<and> c \<le> 90) \<or> (97 \<le> c \<and> c \<le> 122) \<or> (48 \<le> c \<and> c \<le> 57) \<or> c = 95)"

definition isWordBoundary :: "jsstring \<Rightarrow> nat \<Rightarrow> bool" where
  "isWordBoundary s i =
     ((0 < i \<and> i \<le> length s \<and> isWordChar (s ! (i - 1)))
      \<noteq> (i < length s \<and> isWordChar (s ! i)))"

definition run :: "charClass \<Rightarrow> jsstring \<Rightarrow> nat \<Rightarrow> nat" where
  "run cl s i = length (takeWhile (inClass cl) (drop i s))"

fun firstSome :: "'a option list \<Rightarrow> 'a option" where
  "firstSome [] = None"
| "firstSome (None # xs) = firstSome xs"
| "firstSome (Some x # xs) = Some x"

text \<open>
  Matching a sequence at index \<open>i\<close> gives the end index of the match the
  backtracking matcher finds first. A star takes as many code units as it can and gives
  them back one at a time.
\<close>

fun matchSeq :: "atom list \<Rightarrow> jsstring \<Rightarrow> nat \<Rightarrow> nat option" where
  "matchSeq [] s i = Some i"
| "matchSeq (One cl # as) s i =
     (if i < length s \<and> inClass cl (s ! i) then matchSeq as s (i + 1) else None)"
| "matchSeq (Many cl # as) s i =
     firstSome (map (\<lambda>k. matchSeq as s (i + k)) (rev [0..<Suc (run cl s i)]))"
| "matchSeq (WordBoundary # as) s i =
     (if isWordBoundary s i then matchSeq as s i else None)"
| "matchSeq (InputStart # as) s i =
     (if i = 0 then matchSeq as s i else None)"

fun matchAt :: "pattern \<Rightarrow> jsstring \<Rightarrow> nat \<Rightarrow> nat option" where
  "matchAt [] s i = None"
| "matchAt (a # alts) s i =
     (case matchSeq a s i of
        Some e \<Rightarrow> Some e
      | None \<Rightarrow> matchAt alts s i)"

text \<open>
  \<open>s.match(re)\<close> with the \<open>g\<close> flag: the matcher is tried at \<open>lastIndex\<close>,
  then at the next index, until it matches or \<open>lastIndex\<close> passes the end; after
  a match the search goes on from its end, one further on when the match is empty.
  \<open>matchAll\<close> is the list of the matched substrings; \<open>matchGlobal\<close> is
  \<open>null\<close> (\<open>None\<close>) when there is none.
\<close>

function matchAll :: "pattern \<Rightarrow> jsstring \<Rightarrow> nat \<Rightarrow> jsstring list" where
  "matchAll p s lastIndex =
     (if length s < lastIndex then []
      else (case matchAt p s lastIndex of
              None \<Rightarrow> matchAll p s (lastIndex + 1)
            | Some e \<Rightarrow>
                take (e - lastIndex) (drop lastIndex s)
                  # matchAll p s (if e = lastIndex then lastIndex + 1 else e)))"
  by pat_completeness auto
termination
proof (relation "measure (\<lambda>(p, s, i). Suc (length s) - i)")
  show "wf (measure (\<lambda>(p, s, i). Suc (length s) - i))" by simp
next
  fix p :: pattern and s :: jsstring and lastIndex :: nat
  assume "\<not> length s < lastIndex"
  then show "((p, s, lastIndex + 1), (p, s, lastIndex))
      \<in> measure (\<lambda>(p, s, i). Suc (length s) - i)"
    by simp
next
  fix p :: pattern and s :: jsstring and lastIndex e :: nat
  assume inside: "\<not> length s < lastIndex" and found: "matchAt p s lastIndex = Some e"
  have first: "firstSome xs = Some y \<Longrightarrow> Some y \<in> set xs" for xs :: "nat option list" and y
    by (induction xs rule: firstSome.induct) auto
  have seq: "matchSeq as s i = Some y \<Longrightarrow> i \<le> y" for as i y
  proof (induction as s i arbitrary: y rule: matchSeq.induct)
    case (3 cl as s i)
    from "3.prems"
    have "Some y \<in> set (map (\<lambda>k. matchSeq as s (i + k)) (rev [0..<Suc (run cl s i)]))"
      by (simp only: matchSeq.simps first)
    then obtain k where k: "k \<in> set (rev [0..<Suc (run cl s i)])"
      and m: "matchSeq as s (i + k) = Some y"
      by (metis (no_types, lifting) imageE list.set_map)
    from "3.IH" [OF k m] show ?case by simp
  qed (auto split: if_splits)
  have "matchAt q s i = Some y \<Longrightarrow> i \<le> y" for q i y
    by (induction q) (auto split: option.splits dest: seq)
  from this [OF found] have "lastIndex \<le> e" .
  with inside show "((p, s, if e = lastIndex then lastIndex + 1 else e), (p, s, lastIndex))
      \<in> measure (\<lambda>(p, s, i). Suc (length s) - i)"
    by auto
qed

declare matchAll.simps [simp del]

definition matchGlobal :: "pattern \<Rightarrow> jsstring \<Rightarrow> jsstring list option" where
  "matchGlobal p s = (case matchAll p s 0 of [] \<Rightarrow> None | m # ms \<Rightarrow> Some (m # ms))"

text \<open>\<open>s.match(re)\<close> without the \<open>g\<close> flag, read as a truth value.\<close>

definition matches :: "pattern \<Rightarrow> jsstring \<Rightarrow> bool" where
  "matches p s = list_ex (\<lambda>i. matchAt p s i \<noteq> None) [0..<Suc (length s)]"

text \<open>
  \<open>new RegExp(source)\<close> for the sources the analyzer builds: \<open>|\<close> (code unit
  124) separates alternatives, a backslash (92) followed by \<open>b\<close> (98) is the
  word-boundary assertion, and any other code unit stands for itself. The sources built
  from \<open>complexityKeywords\<close> hold letters, \<open>&\<close>, \<open>|\<close> and \<open>\b\<close> only.
\<close>

fun RegExp :: "jsstring \<Rightarrow> pattern" where
  "RegExp [] = [[]]"
| "RegExp [c] =
     (if c = 124 then [[], []] else [[One (Exactly c)]])"
| "RegExp (c # d # cs) =
     (if c = 124 then [] # RegExp (d # cs)
      else if c = 92 \<and> d = 98 then
        (case RegExp cs of
           [] \<Rightarrow> [[WordBoundary]]
         | a # alts \<Rightarrow> (WordBoundary # a) # alts)
      else
        (case RegExp (d # cs) of
           [] \<Rightarrow> [[One (Exactly c)]]
         | a # alts \<Rightarrow> (One (Exactly c) # a) # alts))"


section \<open>Metric primitives (services/codeAnalyzer.js)\<close>

definition countLinesOfCode :: "jsstring \<Rightarrow> nat" where
  "countLinesOfCode code = length (filter (\<lambda>line. length (trim line) > 0) (splitLines code))"

definition complexityKeywords :: "jsstring list" where
  "complexityKeywords =
     [lit ''if'', lit ''else'', lit ''for'', lit ''while'', lit ''switch'', lit ''case'',
      lit ''catch'', lit ''&&'', lit ''||'']"

text \<open>The regular expression of one keyword: \<open>new RegExp(`\\b${keyword}\\b`, 'g')\<close>.\<close>

definition keywordRegExp :: "jsstring \<Rightarrow> pattern" where
  "keywordRegExp keyword = RegExp ([92, 98] @ keyword @ [92, 98])"

text \<open>One round of the \<open>forEach\<close> over the keywords.\<close>

definition complexityStep :: "jsstring \<Rightarrow> jsstring \<Rightarrow> nat \<Rightarrow> nat" where
  "complexityStep code keyword complexity =
     (case matchGlobal (keywordRegExp keyword) code of
        None \<Rightarrow> complexity
      | Some ms \<Rightarrow> complexity + length ms)"

definition calculateComplexity :: "jsstring \<Rightarrow> nat" where
  "calculateComplexity code = min (fold (complexityStep code) complexityKeywords 1) 20"

text \<open>
  The maintainability index is a JavaScript number; the model computes it in the
  rationals.
\<close>

definition calculateMaintainabilityIndex :: "jsstring \<Rightarrow> rat" where
  "calculateMaintainabilityIndex code =
     (let loc = countLinesOfCode code;
          complexity = calculateComplexity code;
          index = 100 - (of_nat complexity * 2) - (of_nat loc * (1 / 10))
      in max 0 (min 100 index))"


section \<open>Data model\<close>

datatype severity = Error | Warning | Info | Suggestion

datatype category = Syntax | Style | Performance | Security | Maintainability | BestPractice

datatype impact = Low | Medium | High | Critical

text \<open>
  An issue, with the fields the analyzers compute a position, a class and a name from.
  Its canned texts (\<open>description\<close>, \<open>explanation\<close>, \<open>suggestedFix\<close>,
  \<open>resources\<close>, \<open>codeSnippet\<close>) are left out: nothing reads them back.
\<close>

record issue =
  line :: int
  column :: int
  severity :: severity
  category :: category
  title :: string
  impact :: impact

record metrics =
  linesOfCode :: nat
  complexity :: nat
  maintainabilityIndex :: rat
  technicalDebt :: nat
  overallScore :: int

record feedback =
  strengths :: "string list"
  areasForImprovement :: "string list"
  skillLevel :: string
  nextSteps :: "string list"

record analysisResult =
  issues :: "issue list"
  metrics :: metrics
  analysis :: feedback


section \<open>Scoring\<close>

text \<open>
  \<open>calculateOverallScore\<close> of services/codeAnalyzer.js: the callback of the
  \<open>forEach\<close> updates the running score, \<open>Math.max\<close> clamps it at the end.
\<close>

definition scoreStep :: "issue \<Rightarrow> int \<Rightarrow> int" where
  "scoreStep i score =
     (case severity i of
        Error \<Rightarrow> score - 20
      | Warning \<Rightarrow> score - 10
      | Info \<Rightarrow> score - 5
      | Suggestion \<Rightarrow> score - 2)"

definition calculateOverallScore :: "issue list \<Rightarrow> int" where
  "calculateOverallScore is = max 0 (fold scoreStep is 100)"

text \<open>
  The method \<open>calculateOverallScore\<close> of the persisted record (models/CodeReview.js),
  applied to the record's issues.
\<close>

definition reviewScoreStep :: "issue \<Rightarrow> int \<Rightarrow> int" where
  "reviewScoreStep i score =
     (case severity i of
        Error \<Rightarrow> score - 15
      | Warning \<Rightarrow> score - 10
      | Info \<Rightarrow> score - 5
      | Suggestion \<Rightarrow> score - 2)"

definition CodeReview_calculateOverallScore :: "issue list \<Rightarrow> int" where
  "CodeReview_calculateOverallScore is =
     (if length is = 0 then 100 else max 0 (fold reviewScoreStep is 100))"


text \<open>The number of issues of one severity in a list.\<close>

definition countSeverity :: "severity \<Rightarrow> issue list \<Rightarrow> int" where
  "countSeverity s is = int (length (filter (\<lambda>i. severity i = s) is))"


section \<open>Language analyzers\<close>

definition pushStrength :: "string \<Rightarrow> analysisResult \<Rightarrow> analysisResult" where
  "pushStrength t a = a\<lparr>analysis := (analysis a)\<lparr>strengths := strengths (analysis a) @ [t]\<rparr>\<rparr>"

definition pushAreaForImprovement :: "string \<Rightarrow> analysisResult \<Rightarrow> analysisResult" where
  "pushAreaForImprovement t a =
     a\<lparr>analysis := (analysis a)\<lparr>areasForImprovement := areasForImprovement (analysis a) @ [t]\<rparr>\<rparr>"

subsection \<open>JavaScript\<close>

text \<open>
  The parser and the tree traversal are the Babel library, outside the repository; the
  analyzer takes them as a parameter. \<open>parse b code\<close> is \<open>Inl\<close> when the parser
  throws. \<open>traverse b ast code\<close> stands for \<open>traverse(ast, visitors)\<close> with the
  analyzer's four visitors: \<open>Inl\<close> when it throws, otherwise the issues the visitors
  pushed to the local array, in the order of the visit.
\<close>

datatype exn = TypeError | SyntaxError | OtherError

record 'ast babel =
  parse :: "jsstring \<Rightarrow> exn + 'ast"
  traverse :: "'ast \<Rightarrow> jsstring \<Rightarrow> exn + issue list"

definition jsSyntaxError :: issue where
  "jsSyntaxError =
     \<lparr>line = 1, column = 1, severity = Error, category = Syntax,
      title = ''JavaScript Syntax Error'', impact = High\<rparr>"

text \<open>The \<open>try\<close> block up to the assignment to \<open>analysis.issues\<close>.\<close>

definition parseAndTraverse :: "'ast babel \<Rightarrow> jsstring \<Rightarrow> exn + issue list" where
  "parseAndTraverse b code =
     (case parse b code of
        Inl e \<Rightarrow> Inl e
      | Inr ast \<Rightarrow> traverse b ast code)"

definition analyzeJavaScript :: "'ast babel \<Rightarrow> jsstring \<Rightarrow> analysisResult \<Rightarrow> analysisResult" where
  "analyzeJavaScript b code a =
     (case parseAndTraverse b code of
        Inr found \<Rightarrow>
          (let a1 = a\<lparr>issues := found\<rparr>;
               a2 = (if length found = 0
                     then pushStrength ''Clean code with no major issues detected'' a1 else a1);
               a3 = (if length (filter (\<lambda>i. severity i = Error) found) = 0
                     then pushStrength ''No syntax errors'' a2 else a2)
           in if list_ex (\<lambda>i. category i = BestPractice) found
              then pushAreaForImprovement ''Follow JavaScript best practices'' a3 else a3)
      | Inl e \<Rightarrow> a\<lparr>issues := issues a @ [jsSyntaxError]\<rparr>)"

subsection \<open>Python\<close>

text \<open>The issues one round of the \<open>forEach\<close> pushes, for the line at \<open>index\<close>.\<close>

definition pythonLine :: "nat \<Rightarrow> jsstring \<Rightarrow> issue list" where
  "pythonLine index l =
     (let lineNum = int index + 1;
          trimmedLine = trim l
      in (if length l > 0 \<and> l ! 0 = 32 \<and> jsRem (indexOf l [32]) 4 \<noteq> 0
          then [\<lparr>line = lineNum, column = 1, severity = Warning, category = Style,
                  title = ''Inconsistent indentation'', impact = Low\<rparr>]
          else [])
       @ (if length l > 79
          then [\<lparr>line = lineNum, column = 80, severity = Info, category = Style,
                  title = ''Line too long'', impact = Low\<rparr>]
          else [])
       @ (if includesStr trimmedLine (lit ''print('')
          then [\<lparr>line = lineNum, column = indexOf l (lit ''print('') + 1,
                  severity = Suggestion, category = BestPractice,
                  title = ''Print statement in code'', impact = Low\<rparr>]
          else []))"

definition analyzePython :: "jsstring \<Rightarrow> analysisResult \<Rightarrow> analysisResult" where
  "analyzePython code a =
     a\<lparr>issues := concat (map (\<lambda>(index, l). pythonLine index l) (enumerate 0 (splitLines code)))\<rparr>"

subsection \<open>Java\<close>

text \<open>
  The regular expression \<open>^(if|for|while|else)\s*\([^)]*\)\s*[^{]\<close>, its group
  written out as four alternatives in the group's order (40 and 41 are the parentheses,
  123 the opening brace).
\<close>

definition controlWithoutBrace :: pattern where
  "controlWithoutBrace =
     map (\<lambda>kw. InputStart # map (\<lambda>c. One (Exactly c)) kw
            @ [Many WhiteSpace, One (Exactly 40), Many (Except 41), One (Exactly 41),
               Many WhiteSpace, One (Except 123)])
       [lit ''if'', lit ''for'', lit ''while'', lit ''else'']"

definition javaLine :: "nat \<Rightarrow> jsstring \<Rightarrow> issue list" where
  "javaLine index l =
     (let lineNum = int index + 1;
          trimmedLine = trim l
      in (if includesStr trimmedLine (lit ''System.out.println'')
          then [\<lparr>line = lineNum, column = indexOf l (lit ''System.out.println'') + 1,
                  severity = Suggestion, category = BestPractice,
                  title = ''System.out.println in code'', impact = Low\<rparr>]
          else [])
       @ (if matches controlWithoutBrace trimmedLine
          then [\<lparr>line = lineNum, column = 1, severity = Warning, category = Style,
                  title = ''Missing braces for control statement'', impact = Medium\<rparr>]
          else []))"

definition analyzeJava :: "jsstring \<Rightarrow> analysisResult \<Rightarrow> analysisResult" where
  "analyzeJava code a =
     a\<lparr>issues := concat (map (\<lambda>(index, l). javaLine index l) (enumerate 0 (splitLines code)))\<rparr>"

subsection \<open>C++\<close>

definition cppLine :: "jsstring \<Rightarrow> nat \<Rightarrow> jsstring \<Rightarrow> issue list" where
  \<open>cppLine code index l =
     (let lineNum = int index + 1;
          trimmedLine = trim l
      in (if includesStr trimmedLine (lit ''using namespace std'')
          then [\<lparr>line = lineNum, column = 1, severity = Warning, category = BestPractice,
                  title = ''Avoid "using namespace std"'', impact = Medium\<rparr>]
          else [])
       @ (if includesStr trimmedLine (lit ''new '') \<and> \<not> includesStr code (lit ''delete'')
          then [\<lparr>line = lineNum, column = indexOf l (lit ''new '') + 1,
                  severity = Error, category = Security,
                  title = ''Potential memory leak'', impact = High\<rparr>]
          else []))\<close>

definition analyzeCpp :: "jsstring \<Rightarrow> analysisResult \<Rightarrow> analysisResult" where
  "analyzeCpp code a =
     a\<lparr>issues := concat (map (\<lambda>(index, l). cppLine code index l) (enumerate 0 (splitLines code)))\<rparr>"

subsection \<open>Generic fallback\<close>

definition genericLine :: "nat \<Rightarrow> jsstring \<Rightarrow> issue list" where
  "genericLine index l =
     (let lineNum = int index + 1
      in (if length l > 120
          then [\<lparr>line = lineNum, column = 121, severity = Info, category = Style,
                  title = ''Long line'', impact = Low\<rparr>]
          else [])
       @ (if l \<noteq> trimEnd l
          then [\<lparr>line = lineNum, column = int (length (trimEnd l)) + 1,
                  severity = Info, category = Style,
                  title = ''Trailing whitespace'', impact = Low\<rparr>]
          else []))"

definition analyzeGeneric :: "jsstring \<Rightarrow> analysisResult \<Rightarrow> analysisResult" where
  "analyzeGeneric code a =
     pushAreaForImprovement ''Language-specific analysis not available''
       (a\<lparr>issues := concat (map (\<lambda>(index, l). genericLine index l) (enumerate 0 (splitLines code)))\<rparr>)"


section \<open>The orchestrator\<close>

text \<open>
  \<open>analyzeCode(code, language)\<close>, first on a source text that is a string. The
  language tag is whatever value the caller passes: \<open>language.toLowerCase()\<close>
  raises a \<open>TypeError\<close> on a value that is not a string, inside the \<open>try\<close>
  block.
\<close>

datatype jsval = JSUndefined | JSNull | JSNumber int | JSString jsstring

definition toLowerCaseOf :: "jsval \<Rightarrow> exn + jsstring" where
  "toLowerCaseOf v = (case v of JSString s \<Rightarrow> Inr (toLowerCase s) | _ \<Rightarrow> Inl TypeError)"

definition initialAnalysis :: analysisResult where
  "initialAnalysis =
     \<lparr>issues = [],
      metrics = \<lparr>linesOfCode = 0, complexity = 0, maintainabilityIndex = 0,
                 technicalDebt = 0, overallScore = 0\<rparr>,
      analysis = \<lparr>strengths = [], areasForImprovement = [],
                  skillLevel = ''intermediate'', nextSteps = []\<rparr>\<rparr>"

text \<open>The \<open>switch\<close> over the lower-cased tag.\<close>

definition dispatch :: "'ast babel \<Rightarrow> jsstring \<Rightarrow> jsstring \<Rightarrow> analysisResult \<Rightarrow> analysisResult" where
  "dispatch b tag code a =
     (if tag = lit ''javascript'' \<or> tag = lit ''jsx'' then analyzeJavaScript b code a
      else if tag = lit ''python'' then analyzePython code a
      else if tag = lit ''java'' then analyzeJava code a
      else if tag = lit ''cpp'' \<or> tag = lit ''c++'' then analyzeCpp code a
      else analyzeGeneric code a)"

text \<open>The \<open>try\<close> block: \<open>Inl\<close> when it throws, \<open>Inr\<close> the value it returns.\<close>

definition analyzeCode_try :: "'ast babel \<Rightarrow> jsstring \<Rightarrow> jsval \<Rightarrow> exn + analysisResult" where
  "analyzeCode_try b code language =
     (let a0 = initialAnalysis;
          a1 = a0\<lparr>metrics := (metrics a0)\<lparr>linesOfCode := countLinesOfCode code\<rparr>\<rparr>;
          a2 = a1\<lparr>metrics := (metrics a1)\<lparr>complexity := calculateComplexity code\<rparr>\<rparr>;
          a3 = a2\<lparr>metrics := (metrics a2)
                  \<lparr>maintainabilityIndex := calculateMaintainabilityIndex code\<rparr>\<rparr>
      in case toLowerCaseOf language of
           Inl e \<Rightarrow> Inl e
         | Inr tag \<Rightarrow>
             (let a4 = dispatch b tag code a3
              in Inr (a4\<lparr>metrics := (metrics a4)
                          \<lparr>overallScore := calculateOverallScore (issues a4)\<rparr>\<rparr>)))"

text \<open>The \<open>catch\<close> block.\<close>

definition analyzeCode_catch :: "jsstring \<Rightarrow> analysisResult" where
  "analyzeCode_catch code =
     \<lparr>issues = [\<lparr>line = 1, column = 1, severity = Error, category = Syntax,
                  title = ''Parsing Error'', impact = High\<rparr>],
      metrics = \<lparr>linesOfCode = countLinesOfCode code, complexity = 1,
                 maintainabilityIndex = 50, technicalDebt = 0, overallScore = 30\<rparr>,
      analysis = \<lparr>strengths = [], areasForImprovement = [''Fix syntax errors''],
                  skillLevel = ''beginner'',
                  nextSteps = [''Review language syntax'',
                               ''Use a code editor with syntax highlighting'']\<rparr>\<rparr>"

definition analyzeCode :: "'ast babel \<Rightarrow> jsstring \<Rightarrow> jsval \<Rightarrow> analysisResult" where
  "analyzeCode b code language =
     (case analyzeCode_try b code language of
        Inr result \<Rightarrow> result
      | Inl e \<Rightarrow> analyzeCode_catch code)"





section \<open>Evaluation\<close>

lemmas str_eval = lit_def trim_def trimStart_def trimEnd_def isWhiteSpace_def startsWith_def
  indexOf_def includesStr_def toLowerCase_def

lemmas re_eval = keywordRegExp_def isWordBoundary_def isWordChar_def run_def matchAll.simps
  matchGlobal_def matches_def


section \<open>The scoring functions\<close>

lemma fold_scoreStep:
  "fold scoreStep is acc =
     acc - (\<Sum>i\<leftarrow>is. case severity i of
                     Error \<Rightarrow> 20 | Warning \<Rightarrow> 10 | Info \<Rightarrow> 5 | Suggestion \<Rightarrow> 2)"
  by (induction "is" arbitrary: acc) (auto simp: scoreStep_def split: severity.splits)

lemma fold_reviewScoreStep:
  "fold reviewScoreStep is acc =
     acc - (\<Sum>i\<leftarrow>is. case severity i of
                     Error \<Rightarrow> 15 | Warning \<Rightarrow> 10 | Info \<Rightarrow> 5 | Suggestion \<Rightarrow> 2)"
  by (induction "is" arbitrary: acc) (auto simp: reviewScoreStep_def split: severity.splits)

lemma penalty_nonneg:
  "0 \<le> (\<Sum>i\<leftarrow>is. case severity i of
                 Error \<Rightarrow> 20 | Warning \<Rightarrow> 10 | Info \<Rightarrow> 5 | Suggestion \<Rightarrow> (2::int))"
  by (rule sum_list_nonneg) (auto split: severity.splits)


text \<open>
  C3. For every issue list the scoring function returns 100 minus the sum of the
  penalties of its issues (20 for an error, 10 for a warning, 5 for an info, 2 for a
  suggestion), clamped at 0; the result lies between 0 and 100.
\<close>

theorem calculateOverallScore_closed_form:
  "calculateOverallScore is =
     max 0 (100 - (\<Sum>i\<leftarrow>is. case severity i of
                            Error \<Rightarrow> 20 | Warning \<Rightarrow> 10 | Info \<Rightarrow> 5 | Suggestion \<Rightarrow> 2))
   \<and> 0 \<le> calculateOverallScore is \<and> calculateOverallScore is \<le> 100"
  using penalty_nonneg [of "is"] by (simp add: calculateOverallScore_def fold_scoreStep)

text \<open>
  C4. The score does not depend on the order of the issues: two lists with the same
  issues, each as often in the one as in the other, get the same score.
\<close>

theorem calculateOverallScore_permutation:
  assumes "mset xs = mset ys"
  shows "calculateOverallScore xs = calculateOverallScore ys"
proof -
  let ?p = "\<lambda>i. case severity i of
                 Error \<Rightarrow> 20 | Warning \<Rightarrow> 10 | Info \<Rightarrow> 5 | Suggestion \<Rightarrow> (2::int)"
  have "sum_list (map ?p xs) = sum_mset (image_mset ?p (mset xs))"
    by (metis mset_map sum_mset_sum_list)
  also have "\<dots> = sum_mset (image_mset ?p (mset ys))"
    using assms by simp
  also have "\<dots> = sum_list (map ?p ys)"
    by (metis mset_map sum_mset_sum_list)
  finally show ?thesis
    by (simp add: calculateOverallScore_def fold_scoreStep)
qed

theorem calculateOverallScore_permutation_witness:
  "calculateOverallScore [\<lparr>line = 3, column = 1, severity = Error, category = Security, title = ''e'', impact = High\<rparr>, \<lparr>line = 1, column = 1, severity = Warning, category = Style, title = ''w'', impact = Low\<rparr>, \<lparr>line = 2, column = 1, severity = Info, category = Style, title = ''i'', impact = Low\<rparr>] = calculateOverallScore [\<lparr>line = 2, column = 1, severity = Info, category = Style, title = ''i'', impact = Low\<rparr>, \<lparr>line = 3, column = 1, severity = Error, category = Security, title = ''e'', impact = High\<rparr>, \<lparr>line = 1, column = 1, severity = Warning, category = Style, title = ''w'', impact = Low\<rparr>]
   \<and> calculateOverallScore [\<lparr>line = 3, column = 1, severity = Error, category = Security, title = ''e'', impact = High\<rparr>, \<lparr>line = 1, column = 1, severity = Warning, category = Style, title = ''w'', impact = Low\<rparr>, \<lparr>line = 2, column = 1, severity = Info, category = Style, title = ''i'', impact = Low\<rparr>] = 65"
proof -
  have h: "mset [\<lparr>line = 3, column = 1, severity = Error, category = Security, title = ''e'', impact = High\<rparr>, \<lparr>line = 1, column = 1, severity = Warning, category = Style, title = ''w'', impact = Low\<rparr>, \<lparr>line = 2, column = 1, severity = Info, category = Style, title = ''i'', impact = Low\<rparr>] = mset [\<lparr>line = 2, column = 1, severity = Info, category = Style, title = ''i'', impact = Low\<rparr>, \<lparr>line = 3, column = 1, severity = Error, category = Security, title = ''e'', impact = High\<rparr>, \<lparr>line = 1, column = 1, severity = Warning, category = Style, title = ''w'', impact = Low\<rparr>]"
    by (simp add: add.commute)
  have "calculateOverallScore [\<lparr>line = 3, column = 1, severity = Error, category = Security, title = ''e'', impact = High\<rparr>, \<lparr>line = 1, column = 1, severity = Warning, category = Style, title = ''w'', impact = Low\<rparr>, \<lparr>line = 2, column = 1, severity = Info, category = Style, title = ''i'', impact = Low\<rparr>] = 65"
    by (simp add: calculateOverallScore_def scoreStep_def)
  with calculateOverallScore_permutation [OF h] show ?thesis by simp
qed

lemma penalties_by_count:
  "(\<Sum>i\<leftarrow>is. case severity i of Error \<Rightarrow> 20 | Warning \<Rightarrow> 10 | Info \<Rightarrow> 5 | Suggestion \<Rightarrow> 2)
     = 20 * countSeverity Error is + 10 * countSeverity Warning is
       + 5 * countSeverity Info is + 2 * countSeverity Suggestion is"
  by (induction "is") (auto simp: countSeverity_def split: severity.splits)

lemma reviewPenalties_by_count:
  "(\<Sum>i\<leftarrow>is. case severity i of Error \<Rightarrow> 15 | Warning \<Rightarrow> 10 | Info \<Rightarrow> 5 | Suggestion \<Rightarrow> 2)
     = 15 * countSeverity Error is + 10 * countSeverity Warning is
       + 5 * countSeverity Info is + 2 * countSeverity Suggestion is"
  by (induction "is") (auto simp: countSeverity_def split: severity.splits)

lemma countSeverity_none:
  "\<forall>i\<in>set is. severity i \<noteq> s \<Longrightarrow> countSeverity s is = 0"
  by (induction "is") (auto simp: countSeverity_def)

text \<open>
  C8. The persisted record's own score is 100 minus 15 per error, 10 per warning, 5 per
  info and 2 per suggestion, clamped at 0. Before clamping it is above the
  orchestrator's score by exactly 5 per error, and the two scores are equal on every
  issue list without an error.
\<close>

theorem CodeReview_score_against_analyzer_score:
  "CodeReview_calculateOverallScore is =
     max 0 (100 - 15 * countSeverity Error is - 10 * countSeverity Warning is
              - 5 * countSeverity Info is - 2 * countSeverity Suggestion is)
   \<and> fold reviewScoreStep is 100 - fold scoreStep is 100 = 5 * countSeverity Error is
   \<and> ((\<forall>i\<in>set is. severity i \<noteq> Error) \<longrightarrow>
        CodeReview_calculateOverallScore is = calculateOverallScore is)"
proof (intro conjI impI)
  show "CodeReview_calculateOverallScore is =
     max 0 (100 - 15 * countSeverity Error is - 10 * countSeverity Warning is
              - 5 * countSeverity Info is - 2 * countSeverity Suggestion is)"
  proof (cases "is = []")
    case True
    then show ?thesis
      by (simp add: CodeReview_calculateOverallScore_def countSeverity_def)
  next
    case False
    then show ?thesis
      by (simp add: CodeReview_calculateOverallScore_def fold_reviewScoreStep
          reviewPenalties_by_count)
  qed
  show "fold reviewScoreStep is 100 - fold scoreStep is 100 = 5 * countSeverity Error is"
    by (simp add: fold_reviewScoreStep fold_scoreStep reviewPenalties_by_count penalties_by_count)
  assume "\<forall>i\<in>set is. severity i \<noteq> Error"
  then have none: "countSeverity Error is = 0" by (rule countSeverity_none)
  show "CodeReview_calculateOverallScore is = calculateOverallScore is"
  proof (cases "is = []")
    case True
    then show ?thesis
      by (simp add: CodeReview_calculateOverallScore_def calculateOverallScore_def)
  next
    case False
    with none show ?thesis
      by (simp add: CodeReview_calculateOverallScore_def calculateOverallScore_def
          fold_reviewScoreStep fold_scoreStep reviewPenalties_by_count penalties_by_count)
  qed
qed

theorem CodeReview_score_against_analyzer_score_witness:
  "CodeReview_calculateOverallScore [\<lparr>line = 1, column = 1, severity = Warning, category = Style, title = ''w'', impact = Low\<rparr>, \<lparr>line = 2, column = 1, severity = Info, category = Style, title = ''i'', impact = Low\<rparr>] = calculateOverallScore [\<lparr>line = 1, column = 1, severity = Warning, category = Style, title = ''w'', impact = Low\<rparr>, \<lparr>line = 2, column = 1, severity = Info, category = Style, title = ''i'', impact = Low\<rparr>]
   \<and> calculateOverallScore [\<lparr>line = 1, column = 1, severity = Warning, category = Style, title = ''w'', impact = Low\<rparr>, \<lparr>line = 2, column = 1, severity = Info, category = Style, title = ''i'', impact = Low\<rparr>] = 85
   \<and> CodeReview_calculateOverallScore [\<lparr>line = 3, column = 1, severity = Error, category = Security, title = ''e'', impact = High\<rparr>, \<lparr>line = 1, column = 1, severity = Warning, category = Style, title = ''w'', impact = Low\<rparr>] = 75
   \<and> calculateOverallScore [\<lparr>line = 3, column = 1, severity = Error, category = Security, title = ''e'', impact = High\<rparr>, \<lparr>line = 1, column = 1, severity = Warning, category = Style, title = ''w'', impact = Low\<rparr>] = 70"
  using CodeReview_score_against_analyzer_score [of "[\<lparr>line = 1, column = 1, severity = Warning, category = Style, title = ''w'', impact = Low\<rparr>, \<lparr>line = 2, column = 1, severity = Info, category = Style, title = ''i'', impact = Low\<rparr>]"]
    CodeReview_score_against_analyzer_score [of "[\<lparr>line = 3, column = 1, severity = Error, category = Security, title = ''e'', impact = High\<rparr>, \<lparr>line = 1, column = 1, severity = Warning, category = Style, title = ''w'', impact = Low\<rparr>]"]
  by (simp add: calculateOverallScore_def scoreStep_def countSeverity_def)


section \<open>The metric primitives\<close>

lemma orPattern: "keywordRegExp (lit ''||'') = [[WordBoundary], [], [WordBoundary]]"
  by (simp add: keywordRegExp_def lit_def)

lemma andPattern:
  "keywordRegExp (lit ''&&'') = [[WordBoundary, One (Exactly 38), One (Exactly 38), WordBoundary]]"
  by (simp add: keywordRegExp_def lit_def)

lemma matchAt_orPattern: "matchAt [[WordBoundary], [], [WordBoundary]] s i = Some i"
  by simp

lemma matchAll_orPattern:
  "length (matchAll [[WordBoundary], [], [WordBoundary]] s i) = Suc (length s) - i"
proof (induction "Suc (length s) - i" arbitrary: i)
  case 0
  then have "length s < i" by simp
  then show ?case by (simp add: matchAll.simps)
next
  case (Suc n)
  then have le: "\<not> length s < i" and n: "n = Suc (length s) - (i + 1)" by simp_all
  have "matchAll [[WordBoundary], [], [WordBoundary]] s i
      = [] # matchAll [[WordBoundary], [], [WordBoundary]] s (i + 1)"
    using le by (subst matchAll.simps) (simp add: matchAt_orPattern)
  with Suc.hyps(1) [OF n] le show ?case by simp
qed

lemma complexityStep_orPattern:
  "complexityStep code (lit ''||'') c = c + length code + 1"
proof -
  have "length (matchAll (keywordRegExp (lit ''||'')) code 0) = Suc (length code)"
    by (simp add: orPattern matchAll_orPattern)
  then show ?thesis
    by (cases "matchAll (keywordRegExp (lit ''||'')) code 0")
      (simp_all add: complexityStep_def matchGlobal_def)
qed

lemma fold_complexityStep_ge: "acc \<le> fold (complexityStep code) kws acc"
proof (induction kws arbitrary: acc)
  case Nil
  show ?case by simp
next
  case (Cons k kws)
  have "acc \<le> complexityStep code k acc"
    by (simp add: complexityStep_def split: option.splits)
  also have "\<dots> \<le> fold (complexityStep code) kws (complexityStep code k acc)"
    by (rule Cons.IH)
  finally show ?case by simp
qed

lemma calculateComplexity_counts_every_index:
  "min (length code + 2) 20 \<le> calculateComplexity code"
proof -
  let ?kws = "[lit ''if'', lit ''else'', lit ''for'', lit ''while'', lit ''switch'', lit ''case'',
      lit ''catch'', lit ''&&'']"
  have kws: "complexityKeywords = ?kws @ [lit ''||'']"
    by (simp add: complexityKeywords_def)
  define n where "n = fold (complexityStep code) ?kws 1"
  have eq: "fold (complexityStep code) complexityKeywords 1 = n + length code + 1"
    unfolding kws n_def
    by (simp only: fold_append comp_apply fold_simps complexityStep_orPattern)
  have "1 \<le> n"
    unfolding n_def by (rule fold_complexityStep_ge)
  then show ?thesis
    unfolding calculateComplexity_def eq by arith
qed

lemma calculateComplexity_long_text:
  "18 \<le> length code \<Longrightarrow> calculateComplexity code = 20"
  using calculateComplexity_counts_every_index [of code]
  by (simp add: calculateComplexity_def)



text \<open>
  C5. The specification gives the complexity as \<open>min(20, 1 + N)\<close>, \<open>N\<close> counting the
  whole-word keywords and the tokens \<open>&&\<close> and \<open>||\<close>; by it the text \<open>a && b\<close> has
  complexity 2 and the empty text 1. The source puts every entry of its list between two
  \<open>\b\<close>: the pattern of \<open>&&\<close> needs a letter, digit or underscore right before and
  right after the operator, and the pattern of \<open>||\<close> is a disjunction with an empty
  alternative, which matches once at every index. On \<open>a && b\<close> the operator counts
  nothing, the seven indices count 7, and the complexity is 8; on the empty text it is 2.
\<close>

theorem calculateComplexity_operator_tokens:
  "calculateComplexity (lit ''a && b'') = 8
   \<and> matchGlobal (keywordRegExp (lit ''&&'')) (lit ''a && b'') = None
   \<and> length (matchAll (keywordRegExp (lit ''||'')) (lit ''a && b'') 0) = 7
   \<and> calculateComplexity (lit '''') = 2"
proof (intro conjI)
  show "calculateComplexity (lit ''a && b'') = 8"
    by (simp add: calculateComplexity_def complexityKeywords_def complexityStep_def
        str_eval re_eval)
  show "matchGlobal (keywordRegExp (lit ''&&'')) (lit ''a && b'') = None"
    by (simp add: str_eval re_eval)
  show "length (matchAll (keywordRegExp (lit ''||'')) (lit ''a && b'') 0) = 7"
    by (simp add: orPattern matchAll_orPattern) (simp add: lit_def)
  show "calculateComplexity (lit '''') = 2"
    by (simp add: calculateComplexity_def complexityKeywords_def complexityStep_def
        str_eval re_eval)
qed

text \<open>
  C7. The maintainability index is \<open>100 - 2 * complexity - 0.1 * linesOfCode\<close>,
  clamped to 0 and 100, of the complexity the source computes. On five lines with one
  \<open>if\<close> each the specification expects complexity 6 and index 87.5; the source's
  complexity counts the 45 indices of the text as well and is capped at 20, and the
  index is 59.5.
\<close>

theorem maintainability_of_five_if_lines:
  "countLinesOfCode (lit ''if (a) b\<newline>if (a) b\<newline>if (a) b\<newline>if (a) b\<newline>if (a) b'') = 5
   \<and> calculateComplexity (lit ''if (a) b\<newline>if (a) b\<newline>if (a) b\<newline>if (a) b\<newline>if (a) b'') = 20
   \<and> calculateMaintainabilityIndex
       (lit ''if (a) b\<newline>if (a) b\<newline>if (a) b\<newline>if (a) b\<newline>if (a) b'') = 119 / 2"
proof -
  have loc: "countLinesOfCode
      (lit ''if (a) b\<newline>if (a) b\<newline>if (a) b\<newline>if (a) b\<newline>if (a) b'') = 5"
    by (simp add: countLinesOfCode_def str_eval)
  have "18 \<le> length (lit ''if (a) b\<newline>if (a) b\<newline>if (a) b\<newline>if (a) b\<newline>if (a) b'')"
    by (simp add: lit_def)
  then have cx: "calculateComplexity
      (lit ''if (a) b\<newline>if (a) b\<newline>if (a) b\<newline>if (a) b\<newline>if (a) b'') = 20"
    by (rule calculateComplexity_long_text)
  from loc cx show ?thesis
    by (simp add: calculateMaintainabilityIndex_def)
qed


section \<open>The Python analyzer\<close>

lemma indexOf_leading_space: "l \<noteq> [] \<Longrightarrow> l ! 0 = 32 \<Longrightarrow> indexOf l [32] = 0"
  by (cases l) (simp_all add: indexOf_def startsWith_def)

lemma pythonLine_never_flags_indentation:
  "filter (\<lambda>i. title i = ''Inconsistent indentation'') (pythonLine index l) = []"
proof (cases "l \<noteq> [] \<and> l ! 0 = 32")
  case True
  then have "jsRem (indexOf l [32]) 4 = 0"
    by (simp add: indexOf_leading_space jsRem_def)
  then show ?thesis
    by (simp add: pythonLine_def Let_def)
next
  case False
  then show ?thesis
    by (auto simp: pythonLine_def Let_def)
qed

lemma analyzePython_never_flags_indentation:
  "filter (\<lambda>i. title i = ''Inconsistent indentation'') (issues (analyzePython code a)) = []"
  by (simp add: analyzePython_def filter_concat pythonLine_never_flags_indentation
      case_prod_unfold comp_def)

text \<open>
  C6. The specification expects a warning of category style for a line that starts with
  a number of spaces that is not a multiple of 4. The source tests
  \<open>line.indexOf(' ') % 4\<close> on a line whose first character is a space, which is 0:
  the two-space indent of the second line below is not reported, and the analysis has
  no issue at all.
\<close>

theorem analyzePython_two_space_indent:
  "issues (analyzeCode b (lit ''def f():\<newline>  return 1'') (JSString (lit ''python''))) = []"
  by (simp add: analyzeCode_def analyzeCode_try_def toLowerCaseOf_def dispatch_def
      analyzePython_def pythonLine_def jsRem_def enumerate_eq_zip str_eval)


section \<open>The orchestrator\<close>










text \<open>The whole result when the tag selects the JavaScript analyzer and the parser throws.\<close>

lemma analyzeCode_parse_failure:
  assumes "toLowerCase tag = lit ''javascript'' \<or> toLowerCase tag = lit ''jsx''"
    and "parse b code = Inl e"
  shows "analyzeCode b code (JSString tag) =
    \<lparr>issues = [jsSyntaxError],
     metrics = \<lparr>linesOfCode = countLinesOfCode code, complexity = calculateComplexity code,
                maintainabilityIndex = calculateMaintainabilityIndex code, technicalDebt = 0,
                overallScore = calculateOverallScore [jsSyntaxError]\<rparr>,
     analysis = \<lparr>strengths = [], areasForImprovement = [],
                 skillLevel = ''intermediate'', nextSteps = []\<rparr>\<rparr>"
  using assms
  by (simp add: analyzeCode_def analyzeCode_try_def toLowerCaseOf_def dispatch_def
      analyzeJavaScript_def parseAndTraverse_def initialAnalysis_def)

text \<open>
  C9. When the tag is \<open>javascript\<close> or \<open>jsx\<close> in any case of letters and the parser
  throws, the result has exactly one issue, an error of category syntax.
\<close>

theorem analyzeCode_parse_failure_issues:
  assumes "toLowerCase tag = lit ''javascript'' \<or> toLowerCase tag = lit ''jsx''"
    and "parse b code = Inl e"
  shows "issues (analyzeCode b code (JSString tag)) = [jsSyntaxError]
    \<and> severity jsSyntaxError = Error \<and> category jsSyntaxError = Syntax"
  by (simp add: analyzeCode_parse_failure [OF assms] jsSyntaxError_def)

theorem analyzeCode_parse_failure_issues_witness:
  "parse \<lparr>parse = (\<lambda>c. Inl SyntaxError :: exn + unit), traverse = (\<lambda>t c. Inr [])\<rparr> (lit ''function f( {'') = Inl SyntaxError
   \<and> issues (analyzeCode \<lparr>parse = (\<lambda>c. Inl SyntaxError :: exn + unit), traverse = (\<lambda>t c. Inr [])\<rparr> (lit ''function f( {'') (JSString (lit ''JavaScript'')))
       = [jsSyntaxError]"
proof -
  have t: "toLowerCase (lit ''JavaScript'') = lit ''javascript''
      \<or> toLowerCase (lit ''JavaScript'') = lit ''jsx''"
    by (simp add: str_eval)
  have p: "parse \<lparr>parse = (\<lambda>c. Inl SyntaxError :: exn + unit), traverse = (\<lambda>t c. Inr [])\<rparr> (lit ''function f( {'') = Inl SyntaxError"
    by simp
  from analyzeCode_parse_failure_issues [OF t p] p show ?thesis by simp
qed

text \<open>
  C10. On that path the metrics are the normal ones: the lines of code, the complexity
  and the maintainability index are the metric primitives of the text, and the overall
  score is the scoring function of the one syntax error, 80.
\<close>

theorem analyzeCode_parse_failure_metrics:
  assumes "toLowerCase tag = lit ''javascript'' \<or> toLowerCase tag = lit ''jsx''"
    and "parse b code = Inl e"
  shows "metrics (analyzeCode b code (JSString tag)) =
      \<lparr>linesOfCode = countLinesOfCode code, complexity = calculateComplexity code,
       maintainabilityIndex = calculateMaintainabilityIndex code, technicalDebt = 0,
       overallScore = calculateOverallScore [jsSyntaxError]\<rparr>
    \<and> overallScore (metrics (analyzeCode b code (JSString tag))) = 80"
  by (simp add: analyzeCode_parse_failure [OF assms] jsSyntaxError_def
      calculateOverallScore_def scoreStep_def)

theorem analyzeCode_parse_failure_metrics_witness:
  "parse \<lparr>parse = (\<lambda>c. Inl SyntaxError :: exn + unit), traverse = (\<lambda>t c. Inr [])\<rparr> (lit ''f( {'') = Inl SyntaxError
   \<and> metrics (analyzeCode \<lparr>parse = (\<lambda>c. Inl SyntaxError :: exn + unit), traverse = (\<lambda>t c. Inr [])\<rparr> (lit ''f( {'') (JSString (lit ''jsx''))) =
      \<lparr>linesOfCode = 1, complexity = 6, maintainabilityIndex = 879 / 10,
       technicalDebt = 0, overallScore = 80\<rparr>"
proof -
  have t: "toLowerCase (lit ''jsx'') = lit ''javascript'' \<or> toLowerCase (lit ''jsx'') = lit ''jsx''"
    by (simp add: str_eval)
  have p: "parse \<lparr>parse = (\<lambda>c. Inl SyntaxError :: exn + unit), traverse = (\<lambda>t c. Inr [])\<rparr> (lit ''f( {'') = Inl SyntaxError"
    by simp
  have loc: "countLinesOfCode (lit ''f( {'') = 1"
    by (simp add: countLinesOfCode_def str_eval)
  have cx: "calculateComplexity (lit ''f( {'') = 6"
    by (simp add: calculateComplexity_def complexityKeywords_def complexityStep_def
        str_eval re_eval)
  have mi: "calculateMaintainabilityIndex (lit ''f( {'') = 879 / 10"
    by (simp add: calculateMaintainabilityIndex_def loc cx)
  have sc: "calculateOverallScore [jsSyntaxError] = 80"
    by (simp add: calculateOverallScore_def scoreStep_def jsSyntaxError_def)
  from analyzeCode_parse_failure_metrics [OF t p] p loc cx mi sc show ?thesis by simp
qed

end
